theory Spec2Isabelle
  imports Main "HOL-Library.Sublist"
begin

section \<open>Pyrseas operators: \<^verbatim>\<open>pyrseas/dbobject/operator.py\<close>\<close>

text \<open>
  A shallow embedding of the classes \<^verbatim>\<open>Operator\<close> and \<^verbatim>\<open>OperatorDict\<close>.
  Python strings are \<open>string\<close>s, an attribute that may be missing on the Python object
  (tested there with \<^verbatim>\<open>hasattr\<close>, removed with \<^verbatim>\<open>del\<close>) is an \<open>option\<close> field, a raised
  exception is a value of type \<open>error\<close>, and the dictionaries are maps.
  The helpers imported from \<^verbatim>\<open>pyrseas.dbobject\<close> (\<^verbatim>\<open>quote_id\<close>, \<^verbatim>\<open>split_schema_obj\<close>,
  the sibling collections of the database) are parameters of the functions that call them.
\<close>

subsection \<open>The string methods of Python that the module calls\<close>

text \<open>\<^verbatim>\<open>sep.join(xs)\<close>.\<close>

fun join_str :: "string \<Rightarrow> string list \<Rightarrow> string" where
  "join_str sep [] = []"
| "join_str sep [x] = x"
| "join_str sep (x # y # ys) = x @ sep @ join_str sep (y # ys)"

text \<open>\<^verbatim>\<open>s.partition(c)\<close> for a separator of one character: the text before the first
  occurrence, the separator, the text after it; without an occurrence the whole string and
  two empty strings.\<close>

definition partition_str :: "char \<Rightarrow> string \<Rightarrow> string \<times> string \<times> string" where
  "partition_str c s =
     (case dropWhile (\<lambda>x. x \<noteq> c) s of
        [] \<Rightarrow> (s, [], [])
      | _ # rest \<Rightarrow> (takeWhile (\<lambda>x. x \<noteq> c) s, [c], rest))"

text \<open>\<^verbatim>\<open>s.find(c)\<close>: the index of the first occurrence; \<open>None\<close> stands for Python's \<open>-1\<close>.\<close>

definition find_str :: "char \<Rightarrow> string \<Rightarrow> nat option" where
  "find_str c s = (if c \<in> set s then Some (length (takeWhile (\<lambda>x. x \<noteq> c) s)) else None)"

text \<open>\<^verbatim>\<open>s.split(c)\<close> for a separator of one character: always at least one piece.\<close>

fun split_str :: "char \<Rightarrow> string \<Rightarrow> string list" where
  "split_str c [] = [[]]"
| "split_str c (x # xs) =
     (if x = c then [] # split_str c xs
      else (case split_str c xs of
              p # ps \<Rightarrow> (x # p) # ps
            | [] \<Rightarrow> [[x]]))"

text \<open>\<^verbatim>\<open>s.lstrip()\<close> removes leading whitespace. A character is a code point from 0 to
  255; the whitespace characters of Python among them are the codes 9 to 13, 28 to 32, 133
  and 160.\<close>

definition isspace :: "char \<Rightarrow> bool" where
  "isspace c = (of_char c \<in> {9, 10, 11, 12, 13, 28, 29, 30, 31, 32, 133, 160 :: nat})"

definition lstrip :: "string \<Rightarrow> string" where
  "lstrip s = dropWhile isspace s"

text \<open>\<^verbatim>\<open>s[-1:]\<close>: the last character as a string, empty for the empty string.\<close>

definition last_slice :: "string \<Rightarrow> string" where
  "last_slice s = (case s of [] \<Rightarrow> [] | _ # _ \<Rightarrow> [last s])"

text \<open>\<^verbatim>\<open>s[i + 1:-1]\<close>: from index \<open>i + 1\<close> up to, but without, the last character (empty when
  there is nothing between them).\<close>

definition inner_slice :: "nat \<Rightarrow> string \<Rightarrow> string" where
  "inner_slice i s = butlast (drop (i + 1) s)"

subsection \<open>Errors\<close>

datatype error =
    KeyError_unrecognized_object_type string
  | KeyError_invalid_operator_signature string
  | ValueError_unpack
  | ValueError_no_specification string
  | AttributeError string

subsection \<open>The class Operator\<close>

text \<open>The attributes of an operator. The four attributes of \<^verbatim>\<open>keylist\<close> are always set by
  the constructor; every other attribute may be missing.\<close>

record operator =
  schema :: string
  name :: string
  leftarg :: string
  rightarg :: string
  oid :: "nat option"
  owner :: "string option"
  procedure :: "string option"
  commutator :: "string option"
  negator :: "string option"
  restrict :: "string option"
  join :: "string option"
  hashes :: "bool option"
  merges :: "bool option"
  description :: "string option"
  oldname :: "string option"

text \<open>Modelled from the spec: the attribute \<^verbatim>\<open>objtype\<close> is inherited from a base class
  that is not part of the module; the spec calls its lower-case form the object-type tag
  of the desired-state keys, \<^verbatim>\<open>operator\<close>.\<close>

definition objtype_lower :: string where
  "objtype_lower = ''operator''"

definition extern_key :: "operator \<Rightarrow> string" where
  "extern_key self =
     objtype_lower @ '' '' @ name self @ ''('' @ leftarg self @ '', '' @ rightarg self @ '')''"

text \<open>\<^verbatim>\<open>self.schema == 'public' and self.name or "%s.%s" % (quote_id(self.schema), self.name)\<close>:
  the \<^verbatim>\<open>and\<close>/\<^verbatim>\<open>or\<close> chain takes its second alternative also when the name is the empty
  string, which Python counts as false.\<close>

definition qualname :: "(string \<Rightarrow> string) \<Rightarrow> operator \<Rightarrow> string" where
  "qualname quote_id self =
     (if schema self = ''public'' \<and> name self \<noteq> [] then name self
      else quote_id (schema self) @ ''.'' @ name self)"

text \<open>The method \<^verbatim>\<open>identifier\<close> (the word is reserved in theory files, hence the suffix).\<close>

definition identifier_of :: "(string \<Rightarrow> string) \<Rightarrow> operator \<Rightarrow> string" where
  "identifier_of quote_id self =
     qualname quote_id self @ ''('' @ leftarg self @ '', '' @ rightarg self @ '')''"

text \<open>The list \<^verbatim>\<open>opt_clauses\<close> of \<^verbatim>\<open>create\<close>, built by one conditional append after the
  other.\<close>

definition opt_clauses :: "operator \<Rightarrow> string list" where
  "opt_clauses self =
     (let cl = [];
          cl = (if leftarg self \<noteq> ''NONE'' then cl @ [''LEFTARG = '' @ leftarg self] else cl);
          cl = (if rightarg self \<noteq> ''NONE'' then cl @ [''RIGHTARG = '' @ rightarg self] else cl);
          cl = (case commutator self of
                  Some c \<Rightarrow> cl @ [''COMMUTATOR = OPERATOR('' @ c @ '')'']
                | None \<Rightarrow> cl);
          cl = (case negator self of
                  Some n \<Rightarrow> cl @ [''NEGATOR = OPERATOR('' @ n @ '')'']
                | None \<Rightarrow> cl);
          cl = (case restrict self of Some r \<Rightarrow> cl @ [''RESTRICT = '' @ r] | None \<Rightarrow> cl);
          cl = (case join self of Some j \<Rightarrow> cl @ [''JOIN = '' @ j] | None \<Rightarrow> cl);
          cl = (if hashes self = Some True then cl @ [''HASHES''] else cl);
          cl = (if merges self = Some True then cl @ [''MERGES''] else cl)
      in cl)"

text \<open>The body of \<^verbatim>\<open>create\<close>, a list of one statement. The decorators \<^verbatim>\<open>commentable\<close> and
  \<^verbatim>\<open>ownable\<close> append statements of their own after it and are not part of the module.
  Reading \<^verbatim>\<open>self.procedure\<close> raises when the attribute is missing.\<close>

definition create :: "(string \<Rightarrow> string) \<Rightarrow> operator \<Rightarrow> error + string list" where
  "create quote_id self =
     (case procedure self of
        None \<Rightarrow> Inl (AttributeError ''procedure'')
      | Some p \<Rightarrow>
          Inr [''CREATE OPERATOR '' @ qualname quote_id self @ '' (\<newline>    PROCEDURE = '' @ p
               @ (if opt_clauses self \<noteq> [] then '',\<newline>    '' else [])
               @ join_str '',\<newline>    '' (opt_clauses self) @ '')''])"


text \<open>The clauses of the statement as the specification lists them: a fixed order, and for
  each clause the condition under which it applies and its text.\<close>

datatype clause = LEFTARG | RIGHTARG | COMMUTATOR | NEGATOR | RESTRICT | JOIN | HASHES | MERGES

definition clause_order :: "clause list" where
  "clause_order = [LEFTARG, RIGHTARG, COMMUTATOR, NEGATOR, RESTRICT, JOIN, HASHES, MERGES]"

fun applicable :: "operator \<Rightarrow> clause \<Rightarrow> bool" where
  "applicable e LEFTARG = (leftarg e \<noteq> ''NONE'')"
| "applicable e RIGHTARG = (rightarg e \<noteq> ''NONE'')"
| "applicable e COMMUTATOR = (commutator e \<noteq> None)"
| "applicable e NEGATOR = (negator e \<noteq> None)"
| "applicable e RESTRICT = (restrict e \<noteq> None)"
| "applicable e JOIN = (join e \<noteq> None)"
| "applicable e HASHES = (hashes e = Some True)"
| "applicable e MERGES = (merges e = Some True)"

fun clause_text :: "operator \<Rightarrow> clause \<Rightarrow> string" where
  "clause_text e LEFTARG = ''LEFTARG = '' @ leftarg e"
| "clause_text e RIGHTARG = ''RIGHTARG = '' @ rightarg e"
| "clause_text e COMMUTATOR =
     ''COMMUTATOR = OPERATOR('' @ (case commutator e of Some c \<Rightarrow> c | None \<Rightarrow> []) @ '')''"
| "clause_text e NEGATOR =
     ''NEGATOR = OPERATOR('' @ (case negator e of Some n \<Rightarrow> n | None \<Rightarrow> []) @ '')''"
| "clause_text e RESTRICT = ''RESTRICT = '' @ (case restrict e of Some r \<Rightarrow> r | None \<Rightarrow> [])"
| "clause_text e JOIN = ''JOIN = '' @ (case join e of Some j \<Rightarrow> j | None \<Rightarrow> [])"
| "clause_text e HASHES = ''HASHES''"
| "clause_text e MERGES = ''MERGES''"

text \<open>An operator used for the concrete instances below: the operator \<^verbatim>\<open>#>=#\<close> of
  \<^verbatim>\<open>hstore\<close> in the schema \<^verbatim>\<open>public\<close>.\<close>

definition hstore_ge :: operator where
  "hstore_ge =
     \<lparr>schema = ''public'', name = ''#>=#'', leftarg = ''hstore'', rightarg = ''hstore'',
      oid = None, owner = None, procedure = Some ''hstore_ge'',
      commutator = Some ''#<=#'', negator = None, restrict = Some ''scalargtsel'',
      join = None, hashes = Some False, merges = Some True,
      description = None, oldname = None\<rparr>"

subsection \<open>Dependencies of an operator\<close>

text \<open>The objects of a database that a dependency set can hold. The collection
  \<^verbatim>\<open>db.types\<close> holds types and \<^verbatim>\<open>db.functions\<close> holds functions; both classes are outside
  the module and stay abstract.\<close>

datatype ('t, 'f, 'x) dbobject =
    TypeObj 't
  | FunctionObj 'f
  | OperatorObj operator
  | OtherObj 'x

text \<open>What \<^verbatim>\<open>get_implied_deps\<close> reads of its argument \<^verbatim>\<open>db\<close>: the method
  \<^verbatim>\<open>db.types.find\<close> and the dictionary \<^verbatim>\<open>db.functions\<close>, keyed by schema, name and
  argument list.\<close>

record ('t, 'f) database =
  db_types_find :: "string \<Rightarrow> 't option"
  db_functions :: "string \<times> string \<times> string \<rightharpoonup> 'f"

text \<open>\<^verbatim>\<open>Operator.get_implied_deps\<close>. Its parameters are \<^verbatim>\<open>split_schema_obj\<close> (the second
  argument of that helper is optional) and the set that the method of the base class
  returns. A found type or function is an object, which Python counts as true; the
  attribute \<^verbatim>\<open>restrict\<close> is used when it is present and not the empty string.\<close>

definition get_implied_deps ::
  "(string \<Rightarrow> string option \<Rightarrow> string \<times> string) \<Rightarrow> ('t, 'f, 'x) dbobject set \<Rightarrow>
   ('t, 'f) database \<Rightarrow> operator \<Rightarrow> error + ('t, 'f, 'x) dbobject set" where
  "get_implied_deps split_schema_obj super_deps db self =
     (let deps = super_deps;
          deps = (case db_types_find db (leftarg self) of
                    Some t \<Rightarrow> insert (TypeObj t) deps
                  | None \<Rightarrow> deps);
          deps = (case db_types_find db (rightarg self) of
                    Some t \<Rightarrow> insert (TypeObj t) deps
                  | None \<Rightarrow> deps)
      in case procedure self of
           None \<Rightarrow> Inl (AttributeError ''procedure'')
         | Some p \<Rightarrow>
             (let (fschema, fname) = split_schema_obj p (Some (schema self));
                  fargs = join_str '', ''
                            (filter (\<lambda>t. t \<noteq> ''NONE'') [leftarg self, rightarg self]);
                  deps = (case db_functions db (fschema, fname, fargs) of
                            Some func \<Rightarrow> insert (FunctionObj func) deps
                          | None \<Rightarrow> deps);
                  deps = (case restrict self of
                            None \<Rightarrow> deps
                          | Some r \<Rightarrow>
                              if r = [] then deps
                              else (let (fschema, fname) = split_schema_obj r None
                                    in case db_functions db
                                              (fschema, fname,
                                               ''internal, oid, internal, integer'') of
                                         Some func \<Rightarrow> insert (FunctionObj func) deps
                                       | None \<Rightarrow> deps))
              in Inr deps))"

subsection \<open>The class OperatorDict\<close>

type_synonym opkey = "string \<times> string \<times> string \<times> string"

text \<open>The dictionary itself, keyed by schema, name, left and right operand, and its
  attribute \<^verbatim>\<open>by_oid\<close>.\<close>

record operator_dict =
  entries :: "opkey \<rightharpoonup> operator"
  by_oid :: "nat \<rightharpoonup> operator"

text \<open>Modelled from the spec: the constructor \<^verbatim>\<open>Operator(**attrs)\<close> is inherited from a
  base class that is not part of the module. The spec has it store every attribute it is
  given, except that the flags \<^verbatim>\<open>hashes\<close> and \<^verbatim>\<open>merges\<close> are stored only if true: a false
  flag is left out of the new object.\<close>

definition new_Operator :: "operator \<Rightarrow> operator" where
  "new_Operator attrs =
     attrs\<lparr>hashes := (if hashes attrs = Some True then Some True else None),
           merges := (if merges attrs = Some True then Some True else None)\<rparr>"

text \<open>A row of the catalog query, one field per column of the \<^verbatim>\<open>SELECT\<close>; the description
  is \<open>None\<close> when the catalog has no comment.\<close>

record catalog_row =
  row_oid :: nat
  row_schema :: string
  row_name :: string
  row_owner :: string
  row_leftarg :: string
  row_rightarg :: string
  row_procedure :: string
  row_commutator :: string
  row_negator :: string
  row_restrict :: string
  row_join :: string
  row_hashes :: bool
  row_merges :: bool
  row_description :: "string option"

text \<open>The object \<^verbatim>\<open>oper\<close> that \<^verbatim>\<open>fetch\<close> yields for a row: every column is an attribute.\<close>

definition row_object :: "catalog_row \<Rightarrow> operator" where
  "row_object r =
     \<lparr>schema = row_schema r, name = row_name r,
      leftarg = row_leftarg r, rightarg = row_rightarg r,
      oid = Some (row_oid r), owner = Some (row_owner r),
      procedure = Some (row_procedure r),
      commutator = Some (row_commutator r), negator = Some (row_negator r),
      restrict = Some (row_restrict r), join = Some (row_join r),
      hashes = Some (row_hashes r), merges = Some (row_merges r),
      description = row_description r, oldname = None\<rparr>"

text \<open>\<^verbatim>\<open>oper.key()\<close>: the attributes named by \<^verbatim>\<open>keylist\<close>.\<close>

definition key :: "operator \<Rightarrow> opkey" where
  "key oper = (schema oper, name oper, leftarg oper, rightarg oper)"

text \<open>The body of the loop of \<^verbatim>\<open>_from_catalog\<close> for one row, and the loop.\<close>

definition from_catalog_row :: "catalog_row \<Rightarrow> operator_dict \<Rightarrow> operator_dict" where
  "from_catalog_row r self =
     (let oper = row_object r;
          oid_r = row_oid r;
          (sch, opr, lft, rgt) = key oper;
          (lft, oper) = (if lft = ''-'' then (''NONE'', oper\<lparr>leftarg := ''NONE''\<rparr>)
                         else (lft, oper));
          (rgt, oper) = (if rgt = ''-'' then (''NONE'', oper\<lparr>rightarg := ''NONE''\<rparr>)
                         else (rgt, oper));
          oper = (if commutator oper = Some ''0'' then oper\<lparr>commutator := None\<rparr> else oper);
          oper = (if negator oper = Some ''0'' then oper\<lparr>negator := None\<rparr> else oper);
          oper = (if restrict oper = Some ''-'' then oper\<lparr>restrict := None\<rparr> else oper);
          oper = (if join oper = Some ''-'' then oper\<lparr>join := None\<rparr> else oper);
          new = new_Operator oper
      in self\<lparr>by_oid := (by_oid self)(oid_r \<mapsto> new),
              entries := (entries self)((sch, opr, lft, rgt) \<mapsto> new)\<rparr>)"

definition from_catalog :: "catalog_row list \<Rightarrow> operator_dict \<Rightarrow> operator_dict" where
  "from_catalog rows self = fold from_catalog_row rows self"

text \<open>The signature parser of \<^verbatim>\<open>from_map\<close>, from \<^verbatim>\<open>opr.find('(')\<close> to \<^verbatim>\<open>opr[:paren]\<close>.
  The assignment of the pieces of \<^verbatim>\<open>split(',')\<close> to \<^verbatim>\<open>(leftarg, rightarg)\<close> raises a
  \<^verbatim>\<open>ValueError\<close> of its own when the pieces are not two.\<close>

definition parse_signature :: "string \<Rightarrow> error + string \<times> string \<times> string" where
  "parse_signature opr =
     (case find_str CHR ''('' opr of
        None \<Rightarrow> Inl (KeyError_invalid_operator_signature opr)
      | Some paren \<Rightarrow>
          if last_slice opr \<noteq> '')'' then Inl (KeyError_invalid_operator_signature opr)
          else (case split_str CHR '','' (inner_slice paren opr) of
                  [larg, rarg] \<Rightarrow> Inr (take paren opr, larg, lstrip rarg)
                | _ \<Rightarrow> Inl ValueError_unpack))"

text \<open>An entry of a specification, an attribute with its value: one constructor for each
  attribute that the module reads, the four attributes of \<^verbatim>\<open>keylist\<close> among them, and
  \<open>Other\<close> for an attribute of any other name, which the module stores and never reads.\<close>

datatype attr =
    Schema string
  | Name string
  | Leftarg string
  | Rightarg string
  | Oid nat
  | Owner string
  | Procedure string
  | Commutator string
  | Negator string
  | Restrict string
  | Join string
  | Hashes bool
  | Merges bool
  | Description string
  | Oldname string
  | Other string

text \<open>\<^verbatim>\<open>setattr(oper, attr, val)\<close>.\<close>

fun setattr :: "operator \<Rightarrow> attr \<Rightarrow> operator" where
  "setattr oper (Schema v) = oper\<lparr>schema := v\<rparr>"
| "setattr oper (Name v) = oper\<lparr>name := v\<rparr>"
| "setattr oper (Leftarg v) = oper\<lparr>leftarg := v\<rparr>"
| "setattr oper (Rightarg v) = oper\<lparr>rightarg := v\<rparr>"
| "setattr oper (Oid v) = oper\<lparr>oid := Some v\<rparr>"
| "setattr oper (Owner v) = oper\<lparr>owner := Some v\<rparr>"
| "setattr oper (Procedure v) = oper\<lparr>procedure := Some v\<rparr>"
| "setattr oper (Commutator v) = oper\<lparr>commutator := Some v\<rparr>"
| "setattr oper (Negator v) = oper\<lparr>negator := Some v\<rparr>"
| "setattr oper (Restrict v) = oper\<lparr>restrict := Some v\<rparr>"
| "setattr oper (Join v) = oper\<lparr>join := Some v\<rparr>"
| "setattr oper (Hashes v) = oper\<lparr>hashes := Some v\<rparr>"
| "setattr oper (Merges v) = oper\<lparr>merges := Some v\<rparr>"
| "setattr oper (Description v) = oper\<lparr>description := Some v\<rparr>"
| "setattr oper (Oldname v) = oper\<lparr>oldname := Some v\<rparr>"
| "setattr oper (Other a) = oper"

text \<open>The entries of a specification that set an attribute of \<^verbatim>\<open>keylist\<close>.\<close>

fun key_attr :: "attr \<Rightarrow> bool" where
  "key_attr (Schema v) = True"
| "key_attr (Name v) = True"
| "key_attr (Leftarg v) = True"
| "key_attr (Rightarg v) = True"
| "key_attr a = False"

text \<open>The end of the loop body of \<^verbatim>\<open>from_map\<close>: every attribute of the map \<^verbatim>\<open>inoper\<close> is
  set on the operator, then \<^verbatim>\<open>oldname\<close> and \<^verbatim>\<open>description\<close> are set once more when the map
  has them.\<close>

definition set_attributes :: "attr list \<Rightarrow> operator \<Rightarrow> operator" where
  "set_attributes inoper oper =
     (let oper = fold (\<lambda>a oper. setattr oper a) inoper oper;
          oper = (case [v. Oldname v \<leftarrow> inoper] of
                    [] \<Rightarrow> oper
                  | vs \<Rightarrow> oper\<lparr>oldname := Some (last vs)\<rparr>);
          oper = (case [v. Description v \<leftarrow> inoper] of
                    [] \<Rightarrow> oper
                  | vs \<Rightarrow> oper\<lparr>description := Some (last vs)\<rparr>)
      in oper)"

text \<open>The key parser of \<^verbatim>\<open>from_map\<close>: the statements of the loop body from
  \<^verbatim>\<open>key.partition(' ')\<close> to \<^verbatim>\<open>opr[:paren]\<close>. It returns the name and the two operands, or
  raises.\<close>

definition parse_key :: "string \<Rightarrow> error + string \<times> string \<times> string" where
  "parse_key k =
     (let (objtype, spc, opr) = partition_str CHR '' '' k
      in if spc \<noteq> '' '' \<or> objtype \<noteq> ''operator''
         then Inl (KeyError_unrecognized_object_type k)
         else parse_signature opr)"

text \<open>The body of the loop of \<^verbatim>\<open>from_map\<close> for one key of the input map. The value of the
  key is \<open>None\<close> for a key without a value and a list of attributes otherwise; \<^verbatim>\<open>not inoper\<close>
  holds of \<open>None\<close> and of the empty map. The result is the exception raised, if any, and the
  dictionary as the body leaves it. The new operator is stored in the dictionary before
  its attributes are set on it; the dictionary holds the object itself, so the model stores
  it again after they are set. In an input map every attribute occurs once.\<close>

definition from_map_item ::
  "string \<Rightarrow> string \<times> attr list option \<Rightarrow> operator_dict \<Rightarrow> error option \<times> operator_dict" where
  "from_map_item schema_name item self =
     (let (k, inoper) = item
      in case parse_key k of
           Inl e \<Rightarrow> (Some e, self)
         | Inr (opr, larg, rarg) \<Rightarrow>
             (let oper = new_Operator
                    \<lparr>schema = schema_name, name = opr,
                     leftarg = larg, rightarg = rarg,
                     oid = None, owner = None, procedure = None,
                     commutator = None, negator = None, restrict = None,
                     join = None, hashes = None, merges = None,
                     description = None, oldname = None\<rparr>;
                  self = self\<lparr>entries :=
                           (entries self)((schema_name, opr, larg, rarg) \<mapsto> oper)\<rparr>
              in if inoper = None \<or> inoper = Some []
                 then (Some (ValueError_no_specification opr), self)
                 else (let attrs = (case inoper of Some as \<Rightarrow> as | None \<Rightarrow> []);
                           oper = set_attributes attrs oper
                       in (None,
                           self\<lparr>entries :=
                             (entries self)((schema_name, opr, larg, rarg) \<mapsto> oper)\<rparr>))))"

text \<open>\<^verbatim>\<open>from_map\<close>: the loop over the keys of the input map, in the order of the map; an
  exception ends it.\<close>

fun from_map ::
  "string \<Rightarrow> (string \<times> attr list option) list \<Rightarrow> operator_dict \<Rightarrow>
   error option \<times> operator_dict" where
  "from_map schema_name [] self = (None, self)"
| "from_map schema_name (item # inopers) self =
     (case from_map_item schema_name item self of
        (Some e, self') \<Rightarrow> (Some e, self')
      | (None, self') \<Rightarrow> from_map schema_name inopers self')"

text \<open>Modelled from the spec: \<^verbatim>\<open>split_func_args\<close> is imported from a package that is not
  part of the module. The spec has \<^verbatim>\<open>find\<close> split a signature at the first \<^verbatim>\<open>(\<close> and the
  last \<^verbatim>\<open>)\<close> by the parsing rules of the key parser of \<^verbatim>\<open>from_map\<close>; the helper returns the
  name and the list of the operand types.\<close>

definition split_func_args :: "string \<Rightarrow> error + string \<times> string list" where
  "split_func_args obj =
     (case parse_signature obj of
        Inl e \<Rightarrow> Inl e
      | Inr (nm, larg, rarg) \<Rightarrow> Inr (nm, [larg, rarg]))"

text \<open>\<^verbatim>\<open>self.get(t)\<close> for a tuple \<open>t\<close> of strings of any length: the keys of the dictionary
  have four components, so that a tuple of another length is not found.\<close>

definition get_tuple :: "operator_dict \<Rightarrow> string list \<Rightarrow> operator option" where
  "get_tuple self t =
     (case t of
        [sch, opr, lft, rgt] \<Rightarrow> entries self (sch, opr, lft, rgt)
      | _ \<Rightarrow> None)"

text \<open>\<^verbatim>\<open>OperatorDict.find\<close>, with \<^verbatim>\<open>split_schema_obj\<close> as a parameter.\<close>

definition find_operator ::
  "(string \<Rightarrow> string option \<Rightarrow> string \<times> string) \<Rightarrow> operator_dict \<Rightarrow> string \<Rightarrow>
   error + operator option" where
  "find_operator split_schema_obj self oper =
     (let (sch, nm) = split_schema_obj oper None
      in case split_func_args nm of
           Inl e \<Rightarrow> Inl e
         | Inr (nm, args) \<Rightarrow> Inr (get_tuple self ([sch, nm] @ args)))"

text \<open>An operator dictionary without entries.\<close>

definition empty_dict :: operator_dict where
  "empty_dict = \<lparr>entries = Map.empty, by_oid = Map.empty\<rparr>"

text \<open>The operator that the loop body of \<^verbatim>\<open>from_map\<close> constructs from a parsed key, before
  any attribute of the input map is set on it.\<close>

definition bare_operator :: "string \<Rightarrow> string \<Rightarrow> string \<Rightarrow> string \<Rightarrow> operator" where
  "bare_operator sch nm larg rarg =
     \<lparr>schema = sch, name = nm, leftarg = larg, rightarg = rarg,
      oid = None, owner = None, procedure = None,
      commutator = None, negator = None, restrict = None,
      join = None, hashes = None, merges = None,
      description = None, oldname = None\<rparr>"

text \<open>The normalization of a catalog row as the specification words it: an operand \<^verbatim>\<open>-\<close>
  becomes \<^verbatim>\<open>NONE\<close>, a commutator or negator \<^verbatim>\<open>0\<close> and a restrict or join \<^verbatim>\<open>-\<close> are
  removed, a flag is kept only if true.\<close>

definition normalized_row :: "catalog_row \<Rightarrow> operator" where
  "normalized_row r =
     \<lparr>schema = row_schema r, name = row_name r,
      leftarg = (if row_leftarg r = ''-'' then ''NONE'' else row_leftarg r),
      rightarg = (if row_rightarg r = ''-'' then ''NONE'' else row_rightarg r),
      oid = Some (row_oid r), owner = Some (row_owner r),
      procedure = Some (row_procedure r),
      commutator = (if row_commutator r = ''0'' then None else Some (row_commutator r)),
      negator = (if row_negator r = ''0'' then None else Some (row_negator r)),
      restrict = (if row_restrict r = ''-'' then None else Some (row_restrict r)),
      join = (if row_join r = ''-'' then None else Some (row_join r)),
      hashes = (if row_hashes r then Some True else None),
      merges = (if row_merges r then Some True else None),
      description = row_description r, oldname = None\<rparr>"

text \<open>A row of a unary operator, for the concrete instances below.\<close>

definition factorial_row :: catalog_row where
  "factorial_row =
     \<lparr>row_oid = 16385, row_schema = ''public'', row_name = ''!!'',
      row_owner = ''postgres'', row_leftarg = ''-'', row_rightarg = ''bigint'',
      row_procedure = ''numeric_fac'', row_commutator = ''0'', row_negator = ''0'',
      row_restrict = ''-'', row_join = ''-'', row_hashes = False, row_merges = False,
      row_description = None\<rparr>"

text \<open>The argument list of the implementing function as the specification words it: the
  operand types that are not \<^verbatim>\<open>NONE\<close>, joined with a comma and a space.\<close>

definition joined_operands :: "operator \<Rightarrow> string" where
  "joined_operands e =
     (if leftarg e \<noteq> ''NONE'' \<and> rightarg e \<noteq> ''NONE'' then leftarg e @ '', '' @ rightarg e
      else if leftarg e \<noteq> ''NONE'' then leftarg e
      else if rightarg e \<noteq> ''NONE'' then rightarg e
      else [])"

text \<open>A database for the concrete instances below: the type \<^verbatim>\<open>hstore\<close> and two functions,
  each object standing for itself by its name; and a \<^verbatim>\<open>split_schema_obj\<close> for names without
  a schema prefix (the schema is the given one, \<^verbatim>\<open>public\<close> when none is given).\<close>

definition hstore_db :: "(string, string) database" where
  "hstore_db =
     \<lparr>db_types_find = (\<lambda>n. if n = ''hstore'' then Some ''hstore'' else None),
      db_functions = [(''public'', ''hstore_ge'', ''hstore, hstore'') \<mapsto> ''hstore_ge'',
                      (''public'', ''numeric_fac'', []) \<mapsto> ''numeric_fac'']\<rparr>"

definition split_unqualified :: "string \<Rightarrow> string option \<Rightarrow> string \<times> string" where
  "split_unqualified obj sch = ((case sch of None \<Rightarrow> ''public'' | Some s \<Rightarrow> s), obj)"

section \<open>Properties\<close>

subsection \<open>The CREATE statement\<close>

lemma join_str_concat:
  "(if xs \<noteq> [] then sep else []) @ join_str sep xs = concat (map (\<lambda>c. sep @ c) xs)"
  by (induction sep xs rule: join_str.induct) auto

lemma opt_clauses_spec:
  "opt_clauses e = map (clause_text e) (filter (applicable e) clause_order)"
  by (cases "commutator e"; cases "negator e"; cases "restrict e"; cases "join e")
     (simp_all add: opt_clauses_def clause_order_def)

text \<open>
  C1: the statement that \<^verbatim>\<open>create\<close> returns names the operator, lists
  \<open>PROCEDURE\<close> first, whatever the other attributes are, and then exactly the clauses that
  apply, in the order \<open>LEFTARG\<close>, \<open>RIGHTARG\<close>, \<open>COMMUTATOR\<close>, \<open>NEGATOR\<close>, \<open>RESTRICT\<close>,
  \<open>JOIN\<close>, \<open>HASHES\<close>, \<open>MERGES\<close>, each on a line of its own after a comma. A clause applies
  iff the operand is not \<^verbatim>\<open>NONE\<close> (\<open>LEFTARG\<close>, \<open>RIGHTARG\<close>), iff the attribute is present
  (\<open>COMMUTATOR\<close>, \<open>NEGATOR\<close>, \<open>RESTRICT\<close>, \<open>JOIN\<close>), iff the flag is present and true
  (\<open>HASHES\<close>, \<open>MERGES\<close>). An operator without the attribute \<^verbatim>\<open>procedure\<close> has no statement:
  \<^verbatim>\<open>create\<close> raises.
\<close>

theorem create_clause_order:
  assumes "procedure e = Some p"
  shows "create quote_id e =
     Inr [''CREATE OPERATOR '' @ qualname quote_id e @ '' (\<newline>    PROCEDURE = '' @ p
          @ concat (map (\<lambda>c. '',\<newline>    '' @ clause_text e c)
                        (filter (applicable e) clause_order))
          @ '')'']"
  using assms join_str_concat [of "opt_clauses e" "'',\<newline>    ''"]
  by (simp add: create_def opt_clauses_spec map_concat comp_def del: join_str.simps)

theorem create_clause_order_witness:
  "procedure hstore_ge = Some ''hstore_ge'' \<and>
   create (\<lambda>s. s) hstore_ge =
     Inr [''CREATE OPERATOR #>=# (\<newline>    PROCEDURE = hstore_ge,\<newline>    LEFTARG = hstore,\<newline>    RIGHTARG = hstore,\<newline>    COMMUTATOR = OPERATOR(#<=#),\<newline>    RESTRICT = scalargtsel,\<newline>    MERGES)'']"
  using create_clause_order [of hstore_ge "''hstore_ge''" "\<lambda>s. s"]
  by (simp add: hstore_ge_def qualname_def clause_order_def)

subsection \<open>The key parser of the input map\<close>

lemma partition_str_tag:
  "partition_str CHR '' '' (''operator '' @ opr) = (''operator'', '' '', opr)"
  by (simp add: partition_str_def)

lemma parse_key_tag:
  "parse_key (''operator '' @ opr) = parse_signature opr"
  by (simp only: parse_key_def partition_str_tag) simp

lemma dropWhile_neq_Cons:
  assumes "dropWhile (\<lambda>x. x \<noteq> c) s = x # rest"
  shows "x = c \<and> s = takeWhile (\<lambda>x. x \<noteq> c) s @ c # rest"
proof -
  have "x = hd (dropWhile (\<lambda>x. x \<noteq> c) s)" using assms by simp
  moreover have "dropWhile (\<lambda>x. x \<noteq> c) s \<noteq> []" using assms by simp
  ultimately have "x = c" using hd_dropWhile [of "\<lambda>x. x \<noteq> c" s] by simp
  moreover have "s = takeWhile (\<lambda>x. x \<noteq> c) s @ dropWhile (\<lambda>x. x \<noteq> c) s" by simp
  ultimately show ?thesis using assms by simp
qed

lemma parse_key_no_tag:
  assumes "\<not> prefix ''operator '' k"
  shows "parse_key k = Inl (KeyError_unrecognized_object_type k)"
proof (cases "dropWhile (\<lambda>x. x \<noteq> CHR '' '') k")
  case Nil
  then show ?thesis by (simp add: parse_key_def partition_str_def del: dropWhile_eq_Nil_conv)
next
  case (Cons x rest)
  then have k: "k = takeWhile (\<lambda>x. x \<noteq> CHR '' '') k @ CHR '' '' # rest"
    using dropWhile_neq_Cons by fastforce
  have "takeWhile (\<lambda>x. x \<noteq> CHR '' '') k \<noteq> ''operator''"
  proof
    assume "takeWhile (\<lambda>x. x \<noteq> CHR '' '') k = ''operator''"
    then have "k = ''operator '' @ rest" using k by simp
    then show False using assms by (simp add: prefix_def)
  qed
  then show ?thesis using Cons by (simp add: parse_key_def partition_str_def)
qed

lemma takeWhile_first: "c \<notin> set a \<Longrightarrow> takeWhile (\<lambda>x. x \<noteq> c) (a @ c # b) = a"
  by (induction a) auto

lemma find_str_first:
  "c \<notin> set a \<Longrightarrow> find_str c (a @ c # b) = Some (length a)"
  by (simp add: find_str_def takeWhile_first)

lemma split_str_nonempty: "split_str c s \<noteq> []"
  by (induction s) (auto split: list.splits)

lemma split_str_none: "c \<notin> set s \<Longrightarrow> split_str c s = [s]"
  by (induction s) auto

lemma split_str_append: "c \<notin> set a \<Longrightarrow> split_str c (a @ c # b) = a # split_str c b"
  by (induction a) auto

lemma length_split_str: "length (split_str c s) = Suc (length (filter (\<lambda>x. x = c) s))"
  by (induction s) (auto split: list.splits simp: split_str_nonempty)

lemma last_slice_snoc: "last_slice (s @ [c]) = [c]"
  by (cases s) (simp_all add: last_slice_def)

lemma inner_slice_shape: "inner_slice (length a) (a @ c # b @ [d]) = b"
  by (simp add: inner_slice_def)

lemma parse_signature_shape:
  assumes "CHR ''('' \<notin> set nm"
  shows "parse_signature (nm @ ''('' @ content @ '')'') =
           (case split_str CHR '','' content of
              [larg, rarg] \<Rightarrow> Inr (nm, larg, lstrip rarg)
            | _ \<Rightarrow> Inl ValueError_unpack)"
proof -
  let ?opr = "nm @ CHR ''('' # content @ [CHR '')'']"
  have f: "find_str CHR ''('' ?opr = Some (length nm)"
    using assms by (rule find_str_first)
  have l: "last_slice ?opr = '')''"
    using last_slice_snoc [of "nm @ CHR ''('' # content" "CHR '')''"] by simp
  have i: "inner_slice (length nm) ?opr = content"
    by (rule inner_slice_shape)
  show ?thesis
    using f l i by (simp add: parse_signature_def split: list.splits)
qed

lemma parse_signature_invalid:
  assumes "CHR ''('' \<notin> set opr \<or> opr = [] \<or> last opr \<noteq> CHR '')''"
  shows "parse_signature opr = Inl (KeyError_invalid_operator_signature opr)"
  using assms by (cases opr) (auto simp: parse_signature_def find_str_def last_slice_def)

lemma signature_shape:
  assumes "CHR ''('' \<in> set opr" and "opr \<noteq> []" and "last opr = CHR '')''"
  shows "\<exists>nm content. opr = nm @ ''('' @ content @ '')'' \<and> CHR ''('' \<notin> set nm"
proof -
  obtain nm rest where o: "opr = nm @ CHR ''('' # rest" and n: "CHR ''('' \<notin> set nm"
    using assms(1) by (meson split_list_first)
  have "rest \<noteq> []" using o assms(3) by auto
  then obtain content where "rest = content @ [last rest]"
    by (metis append_butlast_last_id)
  moreover have "last rest = CHR '')''" using o assms(3) \<open>rest \<noteq> []\<close> by simp
  ultimately have "opr = nm @ ''('' @ content @ '')''" using o by simp
  then show ?thesis using n by blast
qed

lemma parse_key_wellformed:
  assumes "CHR ''('' \<notin> set nm" and "CHR '','' \<notin> set larg" and "CHR '','' \<notin> set rarg"
  shows "parse_key (''operator '' @ nm @ ''('' @ larg @ '','' @ rarg @ '')'') =
           Inr (nm, larg, lstrip rarg)"
proof -
  have "split_str CHR '','' (larg @ CHR '','' # rarg) = [larg, rarg]"
    using assms by (simp add: split_str_append split_str_none)
  then show ?thesis
    using parse_signature_shape [OF assms(1), of "larg @ '','' @ rarg"]
    by (simp only: parse_key_tag) simp
qed

lemma parse_key_unpack:
  assumes "CHR ''('' \<notin> set nm" and "length (filter (\<lambda>c. c = CHR '','') content) \<noteq> 1"
  shows "parse_key (''operator '' @ nm @ ''('' @ content @ '')'') = Inl ValueError_unpack"
proof -
  have "length (split_str CHR '','' content) \<noteq> 2"
    using assms(2) by (simp add: length_split_str)
  then have "(case split_str CHR '','' content of
                [larg, rarg] \<Rightarrow> Inr (nm, larg, lstrip rarg)
              | _ \<Rightarrow> Inl ValueError_unpack) = Inl ValueError_unpack"
    by (auto split: list.splits)
  then show ?thesis
    using parse_signature_shape [OF assms(1), of content]
    by (simp only: parse_key_tag)
qed

lemma from_map_item_error:
  "parse_key k = Inl e \<Longrightarrow> from_map_item s (k, v) d = (Some e, d)"
  by (simp add: from_map_item_def)

lemma new_Operator_bare:
  "new_Operator \<lparr>schema = s, name = n, leftarg = l, rightarg = r, oid = None, owner = None,
      procedure = None, commutator = None, negator = None, restrict = None, join = None,
      hashes = None, merges = None, description = None, oldname = None\<rparr> =
   \<lparr>schema = s, name = n, leftarg = l, rightarg = r, oid = None, owner = None,
      procedure = None, commutator = None, negator = None, restrict = None, join = None,
      hashes = None, merges = None, description = None, oldname = None\<rparr>"
  by (simp add: new_Operator_def)

lemma from_map_item_empty:
  assumes "parse_key k = Inr (nm, larg, rarg)" and "v = None \<or> v = Some []"
  shows "from_map_item s (k, v) d =
     (Some (ValueError_no_specification nm),
      d\<lparr>entries := (entries d)((s, nm, larg, rarg) \<mapsto>
         \<lparr>schema = s, name = nm, leftarg = larg, rightarg = rarg, oid = None, owner = None,
          procedure = None, commutator = None, negator = None, restrict = None, join = None,
          hashes = None, merges = None, description = None, oldname = None\<rparr>)\<rparr>)"
  using assms by (auto simp: from_map_item_def new_Operator_bare Let_def)

subsection \<open>The exceptions of the loader of the input map\<close>

lemma from_map_item_empty':
  assumes "parse_key k = Inr (nm, larg, rarg)" and "v = None \<or> v = Some []"
  shows "from_map_item s (k, v) d =
     (Some (ValueError_no_specification nm),
      d\<lparr>entries := (entries d)((s, nm, larg, rarg) \<mapsto> bare_operator s nm larg rarg)\<rparr>)"
  using from_map_item_empty [OF assms] by (simp add: bare_operator_def)

lemma from_map_append:
  "from_map s pre d = (None, d') \<Longrightarrow> from_map s (pre @ post) d = from_map s post d'"
proof (induction pre arbitrary: d)
  case Nil
  then show ?case by simp
next
  case (Cons item pre)
  show ?case
  proof (cases "from_map_item s item d")
    case (Pair r d1)
    show ?thesis
    proof (cases r)
      case None
      with Pair Cons.prems have "from_map s pre d1 = (None, d')" by simp
      then have "from_map s (pre @ post) d1 = from_map s post d'" by (rule Cons.IH)
      with Pair None show ?thesis by simp
    next
      case (Some e)
      with Pair Cons.prems show ?thesis by simp
    qed
  qed
qed

lemma from_map_raises:
  assumes "from_map s pre d = (None, d')" and "from_map_item s item d' = (Some e, d'')"
  shows "from_map s (pre @ item # rest) d = (Some e, d'')"
  using from_map_append [OF assms(1), of "item # rest"] assms(2) by simp

lemma lstrip_box: "lstrip ''box'' = ''box''"
  by (simp add: lstrip_def isspace_def)



text \<open>
  C4: the hard errors of \<^verbatim>\<open>from_map\<close>. Let the load have reached a key of the input map
  without an exception. If the key does not start with \<^verbatim>\<open>operator\<close> and a space, the load
  ends there with the \<^verbatim>\<open>KeyError\<close> for an unrecognized object type. If it does and the text
  after the tag has no \<^verbatim>\<open>(\<close> or does not end with \<^verbatim>\<open>)\<close>, the load ends with the \<^verbatim>\<open>KeyError\<close>
  for an invalid signature; in both cases the dictionary is as it was before the key. If the
  key is the tag, a name without \<^verbatim>\<open>(\<close> and two operands without comma in parentheses, and
  its value is absent or the empty map, the load ends with the \<^verbatim>\<open>ValueError\<close> for a missing
  specification. Each exception is the result of the call of \<^verbatim>\<open>from_map\<close> itself; the keys
  after the offending one are not read.
\<close>

theorem from_map_hard_errors:
  assumes "from_map s pre d = (None, d')"
  shows "(\<not> prefix ''operator '' k \<longrightarrow>
            from_map s (pre @ (k, v) # rest) d =
              (Some (KeyError_unrecognized_object_type k), d'))
       \<and> (CHR ''('' \<notin> set opr \<or> opr = [] \<or> last opr \<noteq> CHR '')'' \<longrightarrow>
            from_map s (pre @ (''operator '' @ opr, v) # rest) d =
              (Some (KeyError_invalid_operator_signature opr), d'))
       \<and> (CHR ''('' \<notin> set nm \<and> CHR '','' \<notin> set larg \<and> CHR '','' \<notin> set rarg
            \<and> (v = None \<or> v = Some []) \<longrightarrow>
            fst (from_map s (pre @ (''operator '' @ nm @ ''('' @ larg @ '','' @ rarg @ '')'', v)
                              # rest) d) =
              Some (ValueError_no_specification nm))"
proof (intro conjI impI)
  assume "\<not> prefix ''operator '' k"
  then have "from_map_item s (k, v) d' = (Some (KeyError_unrecognized_object_type k), d')"
    by (simp add: from_map_item_error parse_key_no_tag)
  then show "from_map s (pre @ (k, v) # rest) d =
      (Some (KeyError_unrecognized_object_type k), d')"
    by (rule from_map_raises [OF assms])
next
  assume "CHR ''('' \<notin> set opr \<or> opr = [] \<or> last opr \<noteq> CHR '')''"
  then have "parse_key (''operator '' @ opr) = Inl (KeyError_invalid_operator_signature opr)"
    by (simp only: parse_key_tag parse_signature_invalid)
  then have "from_map_item s (''operator '' @ opr, v) d' =
      (Some (KeyError_invalid_operator_signature opr), d')"
    by (rule from_map_item_error)
  then show "from_map s (pre @ (''operator '' @ opr, v) # rest) d =
      (Some (KeyError_invalid_operator_signature opr), d')"
    by (rule from_map_raises [OF assms])
next
  let ?k = "''operator '' @ nm @ ''('' @ larg @ '','' @ rarg @ '')''"
  assume a: "CHR ''('' \<notin> set nm \<and> CHR '','' \<notin> set larg \<and> CHR '','' \<notin> set rarg
            \<and> (v = None \<or> v = Some [])"
  then have "parse_key ?k = Inr (nm, larg, lstrip rarg)"
    by (intro parse_key_wellformed) simp_all
  then have "from_map_item s (?k, v) d' =
     (Some (ValueError_no_specification nm),
      d'\<lparr>entries := (entries d')((s, nm, larg, lstrip rarg) \<mapsto>
            bare_operator s nm larg (lstrip rarg))\<rparr>)"
    using a by (intro from_map_item_empty') simp_all
  then have "from_map s (pre @ (?k, v) # rest) d =
     (Some (ValueError_no_specification nm),
      d'\<lparr>entries := (entries d')((s, nm, larg, lstrip rarg) \<mapsto>
            bare_operator s nm larg (lstrip rarg))\<rparr>)"
    by (rule from_map_raises [OF assms])
  then show "fst (from_map s (pre @ (?k, v) # rest) d) = Some (ValueError_no_specification nm)"
    by simp
qed

theorem from_map_hard_errors_witness:
  "from_map ''public'' [] empty_dict = (None, empty_dict)
   \<and> \<not> prefix ''operator '' ''function foo(int,int)''
   \<and> from_map ''public'' [(''function foo(int,int)'', None)] empty_dict =
       (Some (KeyError_unrecognized_object_type ''function foo(int,int)''), empty_dict)
   \<and> last ''@>(box,box'' \<noteq> CHR '')''
   \<and> from_map ''public'' [(''operator @>(box,box'', None)] empty_dict =
       (Some (KeyError_invalid_operator_signature ''@>(box,box''), empty_dict)
   \<and> fst (from_map ''public'' [(''operator @>(box,box)'', None)] empty_dict) =
       Some (ValueError_no_specification ''@>'')"
  using from_map_hard_errors [where s = "''public''" and pre = "[]" and d = empty_dict
      and d' = empty_dict and k = "''function foo(int,int)''" and opr = "''@>(box,box''"
      and nm = "''@>''" and larg = "''box''" and rarg = "''box''" and v = None and rest = "[]"]
  by simp

text \<open>
  C10: a key that passes the test of the tag and the test of the parentheses is the tag
  followed by a name without \<^verbatim>\<open>(\<close>, a \<^verbatim>\<open>(\<close>, a content and a final \<^verbatim>\<open>)\<close> (lemma
  \<open>signature_shape\<close>). When the content does not hold exactly one comma, the assignment of
  the pieces of \<^verbatim>\<open>split(',')\<close> to two variables raises its own \<^verbatim>\<open>ValueError\<close>, which is not
  the \<^verbatim>\<open>KeyError\<close> for an invalid signature, and the load ends there with the dictionary
  unchanged by the key. The keys \<^verbatim>\<open>operator @(box)\<close> and \<^verbatim>\<open>operator f(a,b,c)\<close> are instances.
\<close>

theorem from_map_unpack_error:
  assumes "from_map s pre d = (None, d')"
    and "CHR ''('' \<notin> set nm"
    and "length (filter (\<lambda>c. c = CHR '','') content) \<noteq> 1"
  shows "from_map s (pre @ (''operator '' @ nm @ ''('' @ content @ '')'', v) # rest) d =
           (Some ValueError_unpack, d')
         \<and> ValueError_unpack \<noteq> KeyError_invalid_operator_signature (nm @ ''('' @ content @ '')'')"
proof -
  have "parse_key (''operator '' @ nm @ ''('' @ content @ '')'') = Inl ValueError_unpack"
    using assms(2,3) by (rule parse_key_unpack)
  then have "from_map_item s (''operator '' @ nm @ ''('' @ content @ '')'', v) d' =
      (Some ValueError_unpack, d')"
    by (rule from_map_item_error)
  then have "from_map s (pre @ (''operator '' @ nm @ ''('' @ content @ '')'', v) # rest) d =
           (Some ValueError_unpack, d')"
    by (rule from_map_raises [OF assms(1)])
  then show ?thesis by simp
qed

theorem from_map_unpack_error_witness:
  "from_map ''public'' [] empty_dict = (None, empty_dict)
   \<and> CHR ''('' \<notin> set ''@''
   \<and> length (filter (\<lambda>c. c = CHR '','') ''box'') \<noteq> 1
   \<and> from_map ''public'' [(''operator @(box)'', Some [Procedure ''box_center''])] empty_dict =
       (Some ValueError_unpack, empty_dict)
   \<and> CHR ''('' \<notin> set ''f''
   \<and> length (filter (\<lambda>c. c = CHR '','') ''a,b,c'') \<noteq> 1
   \<and> from_map ''public'' [(''operator f(a,b,c)'', Some [Procedure ''g''])] empty_dict =
       (Some ValueError_unpack, empty_dict)"
  using from_map_unpack_error [where s = "''public''" and pre = "[]" and d = empty_dict
      and d' = empty_dict and nm = "''@''" and content = "''box''"
      and v = "Some [Procedure ''box_center'']" and rest = "[]"]
    from_map_unpack_error [where s = "''public''" and pre = "[]" and d = empty_dict
      and d' = empty_dict and nm = "''f''" and content = "''a,b,c''"
      and v = "Some [Procedure ''g'']" and rest = "[]"]
  by simp

text \<open>
  C9: \<^verbatim>\<open>from_map\<close> stores the new operator under its key before it tests the value of the
  key. For a well-formed key whose value is absent or the empty map, the load ends with the
  \<^verbatim>\<open>ValueError\<close> for a missing specification, and the dictionary it leaves holds, under the
  key of schema, name and operands, the operator with no attribute but these four: the
  dictionary has changed when the key was not in it before.
\<close>

theorem from_map_not_atomic:
  assumes "from_map s pre d = (None, d')"
    and "CHR ''('' \<notin> set nm" and "CHR '','' \<notin> set larg" and "CHR '','' \<notin> set rarg"
    and "v = None \<or> v = Some []"
  shows "\<exists>d''. from_map s (pre @ (''operator '' @ nm @ ''('' @ larg @ '','' @ rarg @ '')'', v)
                            # rest) d =
                  (Some (ValueError_no_specification nm), d'')
         \<and> d'' = d'\<lparr>entries := (entries d')((s, nm, larg, lstrip rarg) \<mapsto>
                      bare_operator s nm larg (lstrip rarg))\<rparr>
         \<and> entries d'' (s, nm, larg, lstrip rarg) = Some (bare_operator s nm larg (lstrip rarg))
         \<and> (entries d' (s, nm, larg, lstrip rarg) = None \<longrightarrow> d'' \<noteq> d')"
proof -
  let ?k = "''operator '' @ nm @ ''('' @ larg @ '','' @ rarg @ '')''"
  define d2 where "d2 = d'\<lparr>entries := (entries d')((s, nm, larg, lstrip rarg) \<mapsto>
                      bare_operator s nm larg (lstrip rarg))\<rparr>"
  have "parse_key ?k = Inr (nm, larg, lstrip rarg)"
    using assms(2,3,4) by (rule parse_key_wellformed)
  then have "from_map_item s (?k, v) d' = (Some (ValueError_no_specification nm), d2)"
    unfolding d2_def using assms(5) by (rule from_map_item_empty')
  then have 1: "from_map s (pre @ (?k, v) # rest) d = (Some (ValueError_no_specification nm), d2)"
    by (rule from_map_raises [OF assms(1)])
  have 2: "entries d2 (s, nm, larg, lstrip rarg) =
      Some (bare_operator s nm larg (lstrip rarg))"
    by (simp add: d2_def)
  have 3: "entries d' (s, nm, larg, lstrip rarg) = None \<longrightarrow> d2 \<noteq> d'"
    using 2 by auto
  show ?thesis
    using 1 2 3 d2_def by (intro exI [of _ d2]) (simp only: simp_thms)
qed

theorem from_map_not_atomic_witness:
  "from_map ''public'' [] empty_dict = (None, empty_dict)
   \<and> CHR ''('' \<notin> set ''@>'' \<and> CHR '','' \<notin> set ''box''
   \<and> entries empty_dict (''public'', ''@>'', ''box'', ''box'') = None
   \<and> from_map ''public'' [(''operator @>(box,box)'', Some [])] empty_dict =
       (Some (ValueError_no_specification ''@>''),
        \<lparr>entries = [(''public'', ''@>'', ''box'', ''box'') \<mapsto>
                      bare_operator ''public'' ''@>'' ''box'' ''box''],
         by_oid = Map.empty\<rparr>)
   \<and> \<lparr>entries = [(''public'', ''@>'', ''box'', ''box'') \<mapsto>
                      bare_operator ''public'' ''@>'' ''box'' ''box''],
         by_oid = Map.empty\<rparr> \<noteq> empty_dict"
  using from_map_not_atomic [where s = "''public''" and pre = "[]" and d = empty_dict
      and d' = empty_dict and nm = "''@>''" and larg = "''box''" and rarg = "''box''"
      and v = "Some []" and rest = "[]"]
  by (simp add: lstrip_box) (simp add: empty_dict_def)

subsection \<open>External keys and the key parser\<close>

lemma lstrip_space: "lstrip (CHR '' '' # s) = lstrip s"
  by (simp add: lstrip_def isspace_def)

lemma count_append_comma:
  "length (filter (\<lambda>c. c = CHR '','') (l @ '', '' @ r)) =
     Suc (length (filter (\<lambda>c. c = CHR '','') l) + length (filter (\<lambda>c. c = CHR '','') r))"
  by simp

lemma filter_empty_notin: "length (filter (\<lambda>c. c = x) l) = 0 \<longleftrightarrow> x \<notin> set l"
  by (induction l) auto

lemma parse_extern_key_good:
  assumes "CHR ''('' \<notin> set (name e)" and "CHR '','' \<notin> set (leftarg e)"
    and "CHR '','' \<notin> set (rightarg e)"
  shows "parse_key (extern_key e) = Inr (name e, leftarg e, lstrip (rightarg e))"
proof -
  have "CHR '','' \<notin> set ('' '' @ rightarg e)" using assms(3) by simp
  then have "parse_key (''operator '' @ name e @ ''('' @ leftarg e @ '','' @ ('' '' @ rightarg e) @ '')'')
      = Inr (name e, leftarg e, lstrip ('' '' @ rightarg e))"
    using assms(1,2) by (intro parse_key_wellformed)
  then show ?thesis by (simp add: extern_key_def objtype_lower_def lstrip_space)
qed

lemma parse_extern_key_comma:
  assumes "CHR ''('' \<notin> set (name e)"
    and "CHR '','' \<in> set (leftarg e) \<or> CHR '','' \<in> set (rightarg e)"
  shows "parse_key (extern_key e) = Inl ValueError_unpack"
proof -
  have "length (filter (\<lambda>c. c = CHR '','') (leftarg e)) \<noteq> 0
      \<or> length (filter (\<lambda>c. c = CHR '','') (rightarg e)) \<noteq> 0"
    using assms(2) by (simp only: filter_empty_notin) simp
  then have "length (filter (\<lambda>c. c = CHR '','') (leftarg e @ '', '' @ rightarg e)) \<noteq> 1"
    by (simp only: count_append_comma) simp
  then have "parse_key (''operator '' @ name e @ ''('' @ (leftarg e @ '', '' @ rightarg e) @ '')'')
      = Inl ValueError_unpack"
    using assms(1) by (intro parse_key_unpack)
  then show ?thesis by (simp add: extern_key_def objtype_lower_def)
qed

lemma parse_extern_key_paren:
  assumes "CHR ''('' \<in> set (name e)"
  shows "parse_key (extern_key e) \<noteq> Inr (name e, l, r)"
proof -
  obtain a b where n: "name e = a @ CHR ''('' # b" and a: "CHR ''('' \<notin> set a"
    using assms by (meson split_list_first)
  let ?content = "b @ ''('' @ leftarg e @ '', '' @ rightarg e"
  have k: "extern_key e = ''operator '' @ a @ ''('' @ ?content @ '')''"
    using n by (simp add: extern_key_def objtype_lower_def)
  have "parse_key (''operator '' @ a @ ''('' @ ?content @ '')'') =
          (case split_str CHR '','' ?content of
              [larg, rarg] \<Rightarrow> Inr (a, larg, lstrip rarg)
            | _ \<Rightarrow> Inl ValueError_unpack)"
    using parse_signature_shape [OF a, of ?content] by (simp only: parse_key_tag)
  moreover have "a \<noteq> name e" using n by simp
  ultimately show ?thesis unfolding k by (auto split: list.splits)
qed

lemma parse_extern_key_iff:
  "parse_key (extern_key e) = Inr (name e, leftarg e, rightarg e) \<longleftrightarrow>
     CHR ''('' \<notin> set (name e) \<and> CHR '','' \<notin> set (leftarg e) \<and> CHR '','' \<notin> set (rightarg e)
     \<and> lstrip (rightarg e) = rightarg e"
proof (cases "CHR ''('' \<in> set (name e)")
  case True
  then show ?thesis using parse_extern_key_paren [OF True] by simp
next
  case False
  show ?thesis
  proof (cases "CHR '','' \<in> set (leftarg e) \<or> CHR '','' \<in> set (rightarg e)")
    case True
    then show ?thesis using parse_extern_key_comma [OF False True] by auto
  next
    case c: False
    then have "parse_key (extern_key e) = Inr (name e, leftarg e, lstrip (rightarg e))"
      using False by (intro parse_extern_key_good) simp_all
    then show ?thesis using False c by auto
  qed
qed

lemma key_setattr: "\<not> key_attr a \<Longrightarrow> key (setattr oper a) = key oper"
  by (cases a) (simp_all add: key_def)

lemma key_fold_setattr:
  "\<forall>a\<in>set attrs. \<not> key_attr a \<Longrightarrow>
   key (fold (\<lambda>a oper. setattr oper a) attrs oper) = key oper"
  by (induction attrs arbitrary: oper) (simp_all add: key_setattr)

lemma key_bare: "key (bare_operator s nm l r) = (s, nm, l, r)"
  by (simp add: key_def bare_operator_def)

lemma new_Operator_bare': "new_Operator (bare_operator s nm l r) = bare_operator s nm l r"
  by (simp add: new_Operator_def bare_operator_def)

lemma key_set_attributes:
  assumes "\<forall>a\<in>set attrs. \<not> key_attr a"
  shows "key (set_attributes attrs oper) = key oper"
proof -
  define o1 where "o1 = fold (\<lambda>a oper. setattr oper a) attrs oper"
  define o2 where "o2 = (case [v. Oldname v \<leftarrow> attrs] of
                           [] \<Rightarrow> o1 | vs \<Rightarrow> o1\<lparr>oldname := Some (last vs)\<rparr>)"
  define o3 where "o3 = (case [v. Description v \<leftarrow> attrs] of
                           [] \<Rightarrow> o2 | vs \<Rightarrow> o2\<lparr>description := Some (last vs)\<rparr>)"
  have "key o1 = key oper"
    unfolding o1_def using assms by (rule key_fold_setattr)
  moreover have "key o2 = key o1"
    unfolding o2_def by (simp add: key_def split: list.splits)
  moreover have "key o3 = key o2"
    unfolding o3_def by (simp add: key_def split: list.splits)
  moreover have "set_attributes attrs oper = o3"
    unfolding set_attributes_def o3_def o2_def o1_def Let_def by (rule refl)
  ultimately show ?thesis by simp
qed

lemma set_attributes_key_attribute:
  "leftarg (set_attributes [Leftarg ''text''] (bare_operator s nm l r)) = ''text''"
  by (simp add: set_attributes_def bare_operator_def)

lemma lstrip_no_break_space: "lstrip (CHR 0xA0 # ''hstore'') = ''hstore''"
  by (simp add: lstrip_def isspace_def)

lemma from_map_item_ok:
  assumes "parse_key k = Inr (nm, l, r)"
  shows "from_map_item s (k, Some (a # as)) d =
           (None, d\<lparr>entries := (entries d)((s, nm, l, r) \<mapsto>
                        set_attributes (a # as) (bare_operator s nm l r))\<rparr>)"
  using assms
  by (simp add: from_map_item_def new_Operator_bare' bare_operator_def [symmetric])

lemma lstrip_hstore: "lstrip ''hstore'' = ''hstore''"
  by (simp add: lstrip_def isspace_def)

text \<open>
  C2: the key parser of \<^verbatim>\<open>from_map\<close> returns name, left and right operand of an
  operator from its \<^verbatim>\<open>extern_key\<close> exactly when the name holds no \<^verbatim>\<open>(\<close>, neither operand
  holds a comma and the right operand does not start with whitespace; for any other
  operator the parser raises or returns another name or operand. For an operator that the
  parser reproduces, \<^verbatim>\<open>from_map\<close>, given the schema of the operator and a map from the key to
  a specification that is not empty, stores under the key of the original, made of schema,
  name and operands, the operator constructed from these four with the attributes of the
  specification set on it; the stored operator has the key of the original when the
  specification sets no attribute of \<^verbatim>\<open>keylist\<close>.
\<close>

theorem extern_key_roundtrip:
  "(parse_key (extern_key e) = Inr (name e, leftarg e, rightarg e) \<longleftrightarrow>
      CHR ''('' \<notin> set (name e) \<and> CHR '','' \<notin> set (leftarg e) \<and> CHR '','' \<notin> set (rightarg e)
      \<and> lstrip (rightarg e) = rightarg e)
   \<and> (CHR ''('' \<notin> set (name e) \<and> CHR '','' \<notin> set (leftarg e) \<and> CHR '','' \<notin> set (rightarg e)
      \<and> lstrip (rightarg e) = rightarg e \<longrightarrow>
      from_map (schema e) [(extern_key e, Some (a # as))] d =
        (None, d\<lparr>entries := (entries d)(key e \<mapsto>
           set_attributes (a # as)
             (bare_operator (schema e) (name e) (leftarg e) (rightarg e)))\<rparr>)
      \<and> key (bare_operator (schema e) (name e) (leftarg e) (rightarg e)) = key e
      \<and> ((\<forall>x\<in>set (a # as). \<not> key_attr x) \<longrightarrow>
           key (set_attributes (a # as)
                  (bare_operator (schema e) (name e) (leftarg e) (rightarg e))) = key e))"
proof (intro conjI impI)
  show "parse_key (extern_key e) = Inr (name e, leftarg e, rightarg e) \<longleftrightarrow>
      CHR ''('' \<notin> set (name e) \<and> CHR '','' \<notin> set (leftarg e) \<and> CHR '','' \<notin> set (rightarg e)
      \<and> lstrip (rightarg e) = rightarg e"
    by (rule parse_extern_key_iff)
next
  assume c: "CHR ''('' \<notin> set (name e) \<and> CHR '','' \<notin> set (leftarg e)
      \<and> CHR '','' \<notin> set (rightarg e) \<and> lstrip (rightarg e) = rightarg e"
  then have p: "parse_key (extern_key e) = Inr (name e, leftarg e, rightarg e)"
    by (simp only: parse_extern_key_iff simp_thms)
  let ?oper = "set_attributes (a # as) (bare_operator (schema e) (name e) (leftarg e) (rightarg e))"
  have "from_map_item (schema e) (extern_key e, Some (a # as)) d =
          (None, d\<lparr>entries := (entries d)(key e \<mapsto> ?oper)\<rparr>)"
    using from_map_item_ok [OF p, of "schema e" a as d] by (simp add: key_def)
  then show "from_map (schema e) [(extern_key e, Some (a # as))] d =
          (None, d\<lparr>entries := (entries d)(key e \<mapsto> ?oper)\<rparr>)"
    by simp
next
  show "key (bare_operator (schema e) (name e) (leftarg e) (rightarg e)) = key e"
    by (simp add: key_bare) (simp add: key_def)
next
  assume n: "\<forall>x\<in>set (a # as). \<not> key_attr x"
  have "key (set_attributes (a # as)
               (bare_operator (schema e) (name e) (leftarg e) (rightarg e))) =
        key (bare_operator (schema e) (name e) (leftarg e) (rightarg e))"
    using n by (rule key_set_attributes)
  then show "key (set_attributes (a # as)
               (bare_operator (schema e) (name e) (leftarg e) (rightarg e))) = key e"
    by (simp add: key_bare) (simp add: key_def)
qed

theorem extern_key_roundtrip_witness:
  "CHR ''('' \<notin> set (name hstore_ge) \<and> CHR '','' \<notin> set (leftarg hstore_ge)
   \<and> CHR '','' \<notin> set (rightarg hstore_ge) \<and> lstrip (rightarg hstore_ge) = rightarg hstore_ge
   \<and> \<not> key_attr (Procedure ''hstore_ge'')
   \<and> extern_key hstore_ge = ''operator #>=#(hstore, hstore)''
   \<and> parse_key ''operator #>=#(hstore, hstore)'' = Inr (''#>=#'', ''hstore'', ''hstore'')
   \<and> from_map ''public'' [(''operator #>=#(hstore, hstore)'', Some [Procedure ''hstore_ge''])]
        empty_dict =
       (None, empty_dict\<lparr>entries :=
          (entries empty_dict)((''public'', ''#>=#'', ''hstore'', ''hstore'') \<mapsto>
             set_attributes [Procedure ''hstore_ge'']
               (bare_operator ''public'' ''#>=#'' ''hstore'' ''hstore''))\<rparr>)
   \<and> key (set_attributes [Procedure ''hstore_ge'']
            (bare_operator ''public'' ''#>=#'' ''hstore'' ''hstore'')) =
       (''public'', ''#>=#'', ''hstore'', ''hstore'')"
proof -
  have e: "extern_key hstore_ge = ''operator #>=#(hstore, hstore)''"
    by (simp add: extern_key_def objtype_lower_def hstore_ge_def)
  have k: "key hstore_ge = (''public'', ''#>=#'', ''hstore'', ''hstore'')"
    by (simp add: key_def hstore_ge_def)
  have f: "name hstore_ge = ''#>=#''" "leftarg hstore_ge = ''hstore''"
    "rightarg hstore_ge = ''hstore''" "schema hstore_ge = ''public''"
    by (simp_all add: hstore_ge_def)
  show ?thesis
    using extern_key_roundtrip [of hstore_ge "Procedure ''hstore_ge''" "[]" empty_dict]
    unfolding e k f by (simp add: lstrip_hstore)
qed

theorem extern_key_roundtrip_counterexample:
  "parse_key (extern_key (hstore_ge\<lparr>leftarg := ''numeric(10,2)''\<rparr>)) = Inl ValueError_unpack
   \<and> from_map ''public''
        [(extern_key (hstore_ge\<lparr>leftarg := ''numeric(10,2)''\<rparr>), Some [Procedure ''hstore_ge''])]
        empty_dict = (Some ValueError_unpack, empty_dict)"
proof -
  have "parse_key (extern_key (hstore_ge\<lparr>leftarg := ''numeric(10,2)''\<rparr>)) = Inl ValueError_unpack"
    by (rule parse_extern_key_comma) (simp_all add: hstore_ge_def)
  then show ?thesis by (simp add: from_map_item_error)
qed

subsection \<open>Qualified names\<close>

lemma qualname_public:
  "schema e = ''public'' \<Longrightarrow> name e \<noteq> [] \<Longrightarrow> qualname quote_id e = name e"
  by (simp add: qualname_def)

lemma qualname_other:
  "schema e \<noteq> ''public'' \<Longrightarrow> qualname quote_id e = quote_id (schema e) @ ''.'' @ name e"
  by (simp add: qualname_def)

lemma identifier_of_qualname:
  "identifier_of quote_id e = qualname quote_id e @ ''('' @ leftarg e @ '', '' @ rightarg e @ '')''"
  by (simp add: identifier_of_def)

lemma identifier_of_hstore_ge:
  "identifier_of quote_id hstore_ge = ''#>=#(hstore, hstore)''
   \<and> qualname quote_id hstore_ge = ''#>=#''"
  by (simp add: identifier_of_def qualname_def hstore_ge_def)

lemma parse_key_empty_name:
  "parse_key ''operator (integer, integer)'' = Inr ([], ''integer'', ''integer'')"
proof -
  have "parse_key (''operator '' @ [] @ ''('' @ ''integer'' @ '','' @ '' integer'' @ '')'') =
      Inr ([], ''integer'', lstrip '' integer'')"
    by (rule parse_key_wellformed) simp_all
  then show ?thesis by (simp add: lstrip_def isspace_def)
qed

text \<open>
  C5: \<^verbatim>\<open>qualname\<close> is the bare name for a schema \<^verbatim>\<open>public\<close> and a name that is not empty
  (lemma \<open>qualname_public\<close>), the quoted schema, a dot and the name for every other schema
  (lemma \<open>qualname_other\<close>), and \<^verbatim>\<open>identifier\<close> is \<^verbatim>\<open>qualname\<close> followed by the operands in
  parentheses (lemmas \<open>identifier_of_qualname\<close>, \<open>identifier_of_hstore_ge\<close>). An empty
  name is the exception: \<^verbatim>\<open>from_map\<close> accepts the key \<^verbatim>\<open>operator (integer, integer)\<close> in the
  schema \<^verbatim>\<open>public\<close> and stores an operator with the empty name, and \<^verbatim>\<open>qualname\<close> of this
  operator is the quoted schema and a dot, not the bare name.
\<close>

theorem qualname_public_empty_name:
  "from_map ''public'' [(''operator (integer, integer)'', Some [Procedure ''int4pl''])]
      empty_dict =
     (None, empty_dict\<lparr>entries := (entries empty_dict)
        ((''public'', [], ''integer'', ''integer'') \<mapsto>
           (bare_operator ''public'' [] ''integer'' ''integer'')\<lparr>procedure := Some ''int4pl''\<rparr>)\<rparr>)
   \<and> qualname quote_id
        ((bare_operator ''public'' [] ''integer'' ''integer'')\<lparr>procedure := Some ''int4pl''\<rparr>) =
       quote_id ''public'' @ ''.''
   \<and> qualname quote_id
        ((bare_operator ''public'' [] ''integer'' ''integer'')\<lparr>procedure := Some ''int4pl''\<rparr>) \<noteq>
       name ((bare_operator ''public'' [] ''integer'' ''integer'')\<lparr>procedure := Some ''int4pl''\<rparr>)"
proof -
  have "from_map_item ''public'' (''operator (integer, integer)'', Some [Procedure ''int4pl''])
      empty_dict =
     (None, empty_dict\<lparr>entries := (entries empty_dict)
        ((''public'', [], ''integer'', ''integer'') \<mapsto>
           set_attributes [Procedure ''int4pl'']
             (bare_operator ''public'' [] ''integer'' ''integer''))\<rparr>)"
    using parse_key_empty_name by (rule from_map_item_ok)
  moreover have "set_attributes [Procedure ''int4pl'']
             (bare_operator ''public'' [] ''integer'' ''integer'') =
           (bare_operator ''public'' [] ''integer'' ''integer'')\<lparr>procedure := Some ''int4pl''\<rparr>"
    by (simp add: set_attributes_def)
  ultimately show ?thesis
    by (simp add: qualname_def bare_operator_def)
qed

subsection \<open>The catalog loader\<close>

lemma from_catalog_row_normalized:
  "from_catalog_row r d =
     d\<lparr>by_oid := (by_oid d)(row_oid r \<mapsto> normalized_row r),
       entries := (entries d)(key (normalized_row r) \<mapsto> normalized_row r)\<rparr>"
  by (cases "row_leftarg r = ''-''"; cases "row_rightarg r = ''-''";
      cases "row_commutator r = ''0''"; cases "row_negator r = ''0''";
      cases "row_restrict r = ''-''"; cases "row_join r = ''-''")
     (simp_all add: from_catalog_row_def row_object_def key_def new_Operator_def
        normalized_row_def Let_def split del: if_split)

lemma by_oid_from_catalog_other:
  "x \<notin> row_oid ` set rows \<Longrightarrow> by_oid (fold from_catalog_row rows d) x = by_oid d x"
  by (induction rows arbitrary: d) (simp_all add: from_catalog_row_normalized)

lemma by_oid_from_catalog:
  assumes "r \<in> set rows" and "distinct (map row_oid rows)"
  shows "by_oid (from_catalog rows d) (row_oid r) = Some (normalized_row r)"
proof -
  obtain pre post where rows: "rows = pre @ r # post"
    using assms(1) by (meson split_list)
  have "row_oid r \<notin> row_oid ` set post"
    using assms(2) unfolding rows by auto
  then have "by_oid (fold from_catalog_row post (from_catalog_row r (fold from_catalog_row pre d)))
        (row_oid r) =
      by_oid (from_catalog_row r (fold from_catalog_row pre d)) (row_oid r)"
    by (rule by_oid_from_catalog_other)
  then show ?thesis
    unfolding rows from_catalog_def by (simp add: from_catalog_row_normalized)
qed

text \<open>
  C3: let the rows of the catalog query have distinct oids. For every row, \<^verbatim>\<open>_from_catalog\<close>
  records under the oid of the row an operator, which its loop body also stores under the
  key of schema, name and operands, such that: an operand \<^verbatim>\<open>-\<close> of the row is \<^verbatim>\<open>NONE\<close> on the
  operator; a commutator or negator \<^verbatim>\<open>0\<close> and a restrict or join \<^verbatim>\<open>-\<close> of the row are absent
  on the operator, any other value is kept; and each of the flags \<^verbatim>\<open>hashes\<close> and \<^verbatim>\<open>merges\<close>
  is present, and true, on the operator iff it is true in the row. The sentinels are
  replaced by the loop body itself; the false flags are left out by the constructor.
\<close>

theorem from_catalog_normalizes:
  assumes "r \<in> set rows" and "distinct (map row_oid rows)"
  shows "\<exists>e. by_oid (from_catalog rows d) (row_oid r) = Some e
      \<and> (\<forall>d'. entries (from_catalog_row r d') (row_schema r, row_name r, leftarg e, rightarg e)
                = Some e)
      \<and> leftarg e = (if row_leftarg r = ''-'' then ''NONE'' else row_leftarg r)
      \<and> rightarg e = (if row_rightarg r = ''-'' then ''NONE'' else row_rightarg r)
      \<and> commutator e = (if row_commutator r = ''0'' then None else Some (row_commutator r))
      \<and> negator e = (if row_negator r = ''0'' then None else Some (row_negator r))
      \<and> restrict e = (if row_restrict r = ''-'' then None else Some (row_restrict r))
      \<and> join e = (if row_join r = ''-'' then None else Some (row_join r))
      \<and> hashes e = (if row_hashes r then Some True else None)
      \<and> merges e = (if row_merges r then Some True else None)"
proof (intro exI [of _ "normalized_row r"] conjI allI)
  show "by_oid (from_catalog rows d) (row_oid r) = Some (normalized_row r)"
    using assms by (rule by_oid_from_catalog)
next
  fix d'
  have "key (normalized_row r) =
      (row_schema r, row_name r, leftarg (normalized_row r), rightarg (normalized_row r))"
    by (simp add: key_def normalized_row_def)
  then show "entries (from_catalog_row r d')
        (row_schema r, row_name r, leftarg (normalized_row r), rightarg (normalized_row r)) =
      Some (normalized_row r)"
    by (simp add: from_catalog_row_normalized)
qed (simp_all add: normalized_row_def)

theorem from_catalog_normalizes_witness:
  "factorial_row \<in> set [factorial_row] \<and> distinct (map row_oid [factorial_row])
   \<and> (\<exists>e. by_oid (from_catalog [factorial_row] empty_dict) 16385 = Some e
        \<and> entries (from_catalog_row factorial_row empty_dict)
             (''public'', ''!!'', leftarg e, rightarg e) = Some e
        \<and> leftarg e = ''NONE'' \<and> rightarg e = ''bigint''
        \<and> commutator e = None \<and> negator e = None \<and> restrict e = None \<and> join e = None
        \<and> hashes e = None \<and> merges e = None)"
proof -
  have f: "row_oid factorial_row = 16385" "row_schema factorial_row = ''public''"
    "row_name factorial_row = ''!!''" "row_leftarg factorial_row = ''-''"
    "row_rightarg factorial_row = ''bigint''" "row_commutator factorial_row = ''0''"
    "row_negator factorial_row = ''0''" "row_restrict factorial_row = ''-''"
    "row_join factorial_row = ''-''" "row_hashes factorial_row = False"
    "row_merges factorial_row = False"
    by (simp_all add: factorial_row_def)
  obtain e where e: "by_oid (from_catalog [factorial_row] empty_dict) (row_oid factorial_row) = Some e"
      "\<forall>d'. entries (from_catalog_row factorial_row d')
          (row_schema factorial_row, row_name factorial_row, leftarg e, rightarg e) = Some e"
      "leftarg e = (if row_leftarg factorial_row = ''-'' then ''NONE'' else row_leftarg factorial_row)"
      "rightarg e = (if row_rightarg factorial_row = ''-'' then ''NONE'' else row_rightarg factorial_row)"
      "commutator e = (if row_commutator factorial_row = ''0'' then None else Some (row_commutator factorial_row))"
      "negator e = (if row_negator factorial_row = ''0'' then None else Some (row_negator factorial_row))"
      "restrict e = (if row_restrict factorial_row = ''-'' then None else Some (row_restrict factorial_row))"
      "join e = (if row_join factorial_row = ''-'' then None else Some (row_join factorial_row))"
      "hashes e = (if row_hashes factorial_row then Some True else None)"
      "merges e = (if row_merges factorial_row then Some True else None)"
    using from_catalog_normalizes [of factorial_row "[factorial_row]" empty_dict] by auto
  show ?thesis
    using e unfolding f by (intro conjI exI [of _ e]) simp_all
qed

subsection \<open>Dependencies\<close>

lemma join_str_operands:
  "join_str '', '' (filter (\<lambda>t. t \<noteq> ''NONE'') [leftarg e, rightarg e]) = joined_operands e"
  by (simp add: joined_operands_def)

lemma insert_option: "(case x of Some t \<Rightarrow> insert (f t) A | None \<Rightarrow> A) = A \<union> f ` set_option x"
  by (cases x) simp_all

lemma get_implied_deps_eq:
  assumes "procedure e = Some p"
  shows "get_implied_deps split super_deps db e =
      Inr (super_deps
           \<union> TypeObj ` set_option (db_types_find db (leftarg e))
           \<union> TypeObj ` set_option (db_types_find db (rightarg e))
           \<union> FunctionObj ` set_option
                 (db_functions db (fst (split p (Some (schema e))),
                                   snd (split p (Some (schema e))), joined_operands e))
           \<union> FunctionObj `
               (case restrict e of
                  None \<Rightarrow> {}
                | Some r \<Rightarrow>
                    if r = [] then {}
                    else set_option
                           (db_functions db (fst (split r None), snd (split r None),
                                             ''internal, oid, internal, integer''))))"
proof -
  have "get_implied_deps split super_deps db e =
      Inr (let deps = super_deps \<union> TypeObj ` set_option (db_types_find db (leftarg e));
               deps = deps \<union> TypeObj ` set_option (db_types_find db (rightarg e));
               deps = deps \<union> FunctionObj ` set_option
                 (db_functions db (fst (split p (Some (schema e))),
                                   snd (split p (Some (schema e))), joined_operands e))
           in case restrict e of
                None \<Rightarrow> deps
              | Some r \<Rightarrow>
                  if r = [] then deps
                  else deps \<union> FunctionObj ` set_option
                           (db_functions db (fst (split r None), snd (split r None),
                                             ''internal, oid, internal, integer'')))"
    using assms
    unfolding get_implied_deps_def insert_option join_str_operands
    by (simp add: Let_def case_prod_beta split del: if_split cong: option.case_cong if_cong)
  then show ?thesis
    by (cases "restrict e") (simp_all add: Let_def)
qed

text \<open>
  C6: for an operator with a procedure, \<^verbatim>\<open>get_implied_deps\<close> returns the inherited set
  together with: the types that \<^verbatim>\<open>db.types.find\<close> returns for the two operands; the function
  that \<^verbatim>\<open>db.functions\<close> holds under the schema and name that \<^verbatim>\<open>split_schema_obj\<close> makes of the
  procedure and under the operand types that are not \<^verbatim>\<open>NONE\<close>, joined by a comma and a
  space, if there is one; and, when \<^verbatim>\<open>restrict\<close> is present and not the empty string, the
  function held under its schema and name and the argument list
  \<^verbatim>\<open>internal, oid, internal, integer\<close>, if there is one. When both operands are \<^verbatim>\<open>NONE\<close> and
  the types collection has no type of that name, no type is added, and the procedure is
  looked up with the empty argument list.
\<close>

theorem get_implied_deps_resolution:
  assumes "procedure e = Some p"
  shows "get_implied_deps split super_deps db e =
      Inr (super_deps
           \<union> TypeObj ` set_option (db_types_find db (leftarg e))
           \<union> TypeObj ` set_option (db_types_find db (rightarg e))
           \<union> FunctionObj ` set_option
                 (db_functions db (fst (split p (Some (schema e))),
                                   snd (split p (Some (schema e))), joined_operands e))
           \<union> FunctionObj `
               (case restrict e of
                  None \<Rightarrow> {}
                | Some r \<Rightarrow>
                    if r = [] then {}
                    else set_option
                           (db_functions db (fst (split r None), snd (split r None),
                                             ''internal, oid, internal, integer''))))
     \<and> (leftarg e = ''NONE'' \<and> rightarg e = ''NONE'' \<and> db_types_find db ''NONE'' = None \<longrightarrow>
         get_implied_deps split super_deps db e =
           Inr (super_deps
                \<union> FunctionObj ` set_option
                      (db_functions db (fst (split p (Some (schema e))),
                                        snd (split p (Some (schema e))), []))
                \<union> FunctionObj `
                    (case restrict e of
                       None \<Rightarrow> {}
                     | Some r \<Rightarrow>
                         if r = [] then {}
                         else set_option
                                (db_functions db (fst (split r None), snd (split r None),
                                                  ''internal, oid, internal, integer'')))))"
proof (intro conjI impI)
  show "get_implied_deps split super_deps db e =
      Inr (super_deps
           \<union> TypeObj ` set_option (db_types_find db (leftarg e))
           \<union> TypeObj ` set_option (db_types_find db (rightarg e))
           \<union> FunctionObj ` set_option
                 (db_functions db (fst (split p (Some (schema e))),
                                   snd (split p (Some (schema e))), joined_operands e))
           \<union> FunctionObj `
               (case restrict e of
                  None \<Rightarrow> {}
                | Some r \<Rightarrow>
                    if r = [] then {}
                    else set_option
                           (db_functions db (fst (split r None), snd (split r None),
                                             ''internal, oid, internal, integer''))))"
    using assms by (rule get_implied_deps_eq)
next
  assume n: "leftarg e = ''NONE'' \<and> rightarg e = ''NONE'' \<and> db_types_find db ''NONE'' = None"
  then have "joined_operands e = []"
    by (simp add: joined_operands_def)
  then show "get_implied_deps split super_deps db e =
           Inr (super_deps
                \<union> FunctionObj ` set_option
                      (db_functions db (fst (split p (Some (schema e))),
                                        snd (split p (Some (schema e))), []))
                \<union> FunctionObj `
                    (case restrict e of
                       None \<Rightarrow> {}
                     | Some r \<Rightarrow>
                         if r = [] then {}
                         else set_option
                                (db_functions db (fst (split r None), snd (split r None),
                                                  ''internal, oid, internal, integer''))))"
    using n by (simp add: get_implied_deps_eq [OF assms])
qed

theorem get_implied_deps_resolution_witness:
  "procedure hstore_ge = Some ''hstore_ge''
   \<and> get_implied_deps split_unqualified {} hstore_db hstore_ge =
       Inr {TypeObj ''hstore'', FunctionObj ''hstore_ge'' :: (string, string, unit) dbobject}
   \<and> procedure (normalized_row factorial_row\<lparr>rightarg := ''NONE''\<rparr>) = Some ''numeric_fac''
   \<and> leftarg (normalized_row factorial_row\<lparr>rightarg := ''NONE''\<rparr>) = ''NONE''
   \<and> rightarg (normalized_row factorial_row\<lparr>rightarg := ''NONE''\<rparr>) = ''NONE''
   \<and> db_types_find hstore_db ''NONE'' = None
   \<and> get_implied_deps split_unqualified {} hstore_db
        (normalized_row factorial_row\<lparr>rightarg := ''NONE''\<rparr>) =
       Inr {FunctionObj ''numeric_fac'' :: (string, string, unit) dbobject}"
proof -
  let ?u = "normalized_row factorial_row\<lparr>rightarg := ''NONE''\<rparr>"
  have h: "procedure hstore_ge = Some ''hstore_ge''" "leftarg hstore_ge = ''hstore''"
    "rightarg hstore_ge = ''hstore''" "schema hstore_ge = ''public''"
    "restrict hstore_ge = Some ''scalargtsel''"
    by (simp_all add: hstore_ge_def)
  have j: "joined_operands hstore_ge = ''hstore, hstore''"
    by (simp add: joined_operands_def h)
  have u: "procedure ?u = Some ''numeric_fac''" "leftarg ?u = ''NONE''" "rightarg ?u = ''NONE''"
    "schema ?u = ''public''" "restrict ?u = None"
    by (simp_all add: normalized_row_def factorial_row_def)
  have ju: "joined_operands ?u = []"
    by (simp add: joined_operands_def u)
  have d: "db_types_find hstore_db ''NONE'' = None"
    "db_types_find hstore_db ''hstore'' = Some ''hstore''"
    "db_functions hstore_db (''public'', ''hstore_ge'', ''hstore, hstore'') = Some ''hstore_ge''"
    "db_functions hstore_db (''public'', ''numeric_fac'', []) = Some ''numeric_fac''"
    "db_functions hstore_db (''public'', ''scalargtsel'', ''internal, oid, internal, integer'')
       = None"
    by (simp_all add: hstore_db_def)
  have s: "\<And>x. split_unqualified x (Some ''public'') = (''public'', x)"
    "\<And>x. split_unqualified x None = (''public'', x)"
    by (simp_all add: split_unqualified_def)
  have 1: "get_implied_deps split_unqualified {} hstore_db hstore_ge =
       Inr {TypeObj ''hstore'', FunctionObj ''hstore_ge'' :: (string, string, unit) dbobject}"
    using get_implied_deps_resolution
      [of hstore_ge "''hstore_ge''" split_unqualified "{}" hstore_db]
    unfolding h j s by (simp add: d insert_commute)
  have 2: "get_implied_deps split_unqualified {} hstore_db ?u =
       Inr {FunctionObj ''numeric_fac'' :: (string, string, unit) dbobject}"
    using get_implied_deps_resolution
      [of ?u "''numeric_fac''" split_unqualified "{}" hstore_db]
    unfolding u s ju by (simp add: d)
  show ?thesis using 1 2 h(1) u(1,2,3) d(1) by simp
qed

text \<open>
  C7: for an operator with a procedure, \<^verbatim>\<open>get_implied_deps\<close> returns a set, whatever the
  types and functions collections hold: no lookup raises. Everything it adds to the
  inherited set is a type or a function, so that the operator itself is in the result only
  if it is in the inherited set; and when every lookup misses, the result is the inherited
  set.
\<close>

theorem get_implied_deps_never_raises:
  fixes super_deps :: "('t, 'f, 'x) dbobject set"
  assumes "procedure e = Some p"
  shows "\<exists>S. get_implied_deps split super_deps db e = Inr S
           \<and> S - super_deps \<subseteq> range TypeObj \<union> range FunctionObj
           \<and> (OperatorObj e \<notin> super_deps \<longrightarrow> OperatorObj e \<notin> S)
           \<and> ((\<forall>n. db_types_find db n = None) \<and> (\<forall>k. db_functions db k = None) \<longrightarrow>
                S = super_deps)"
proof -
  define T :: "('t, 'f, 'x) dbobject set" where "T = TypeObj ` set_option (db_types_find db (leftarg e))
           \<union> TypeObj ` set_option (db_types_find db (rightarg e))"
  define F :: "('t, 'f, 'x) dbobject set" where "F = FunctionObj ` set_option
                 (db_functions db (fst (split p (Some (schema e))),
                                   snd (split p (Some (schema e))), joined_operands e))
           \<union> FunctionObj `
               (case restrict e of
                  None \<Rightarrow> {}
                | Some r \<Rightarrow>
                    if r = [] then {}
                    else set_option
                           (db_functions db (fst (split r None), snd (split r None),
                                             ''internal, oid, internal, integer'')))"
  have r: "get_implied_deps split super_deps db e = Inr (super_deps \<union> T \<union> F)"
    unfolding T_def F_def using get_implied_deps_eq [OF assms, of split super_deps db]
    by (simp only: Un_assoc)
  have t: "T \<subseteq> range TypeObj" unfolding T_def by blast
  have f: "F \<subseteq> range FunctionObj" unfolding F_def by blast
  have 1: "(super_deps \<union> T \<union> F) - super_deps \<subseteq> range TypeObj \<union> range FunctionObj"
    using t f by blast
  have 2: "OperatorObj e \<notin> super_deps \<longrightarrow> OperatorObj e \<notin> super_deps \<union> T \<union> F"
    using t f by auto
  have 3: "(\<forall>n. db_types_find db n = None) \<and> (\<forall>k. db_functions db k = None) \<longrightarrow>
      super_deps \<union> T \<union> F = super_deps"
    unfolding T_def F_def by (auto split: option.splits)
  show ?thesis using r 1 2 3 by blast
qed

theorem get_implied_deps_never_raises_witness:
  "procedure hstore_ge = Some ''hstore_ge''
   \<and> (\<exists>S :: (string, string, unit) dbobject set.
        get_implied_deps split_unqualified {}
          \<lparr>db_types_find = (\<lambda>n. None), db_functions = Map.empty\<rparr> hstore_ge = Inr S
        \<and> OperatorObj hstore_ge \<notin> S \<and> S = {})"
proof -
  have h: "procedure hstore_ge = Some ''hstore_ge''"
    by (simp add: hstore_ge_def)
  show ?thesis
    using get_implied_deps_never_raises [OF h, of split_unqualified "{}"
        "\<lparr>db_types_find = (\<lambda>n. None), db_functions = Map.empty\<rparr>"] h
    by auto
qed


subsection \<open>Finding an operator by its signature\<close>

lemma split_func_args_wellformed:
  assumes "CHR ''('' \<notin> set nm" and "CHR '','' \<notin> set larg" and "CHR '','' \<notin> set rarg"
  shows "split_func_args (nm @ ''('' @ larg @ '','' @ rarg @ '')'') = Inr (nm, [larg, lstrip rarg])"
proof -
  have "parse_key (''operator '' @ nm @ ''('' @ larg @ '','' @ rarg @ '')'') =
           Inr (nm, larg, lstrip rarg)"
    using assms by (rule parse_key_wellformed)
  then have "parse_signature (nm @ ''('' @ larg @ '','' @ rarg @ '')'') =
           Inr (nm, larg, lstrip rarg)"
    by (simp only: parse_key_tag)
  then show ?thesis by (simp add: split_func_args_def)
qed

text \<open>
  C8: let \<^verbatim>\<open>split_schema_obj\<close> split a signature into a schema and a text of the form name,
  \<^verbatim>\<open>(\<close>, left type, comma, right type, \<^verbatim>\<open>)\<close>, where the name holds no \<^verbatim>\<open>(\<close> and the types hold
  no comma. Then \<^verbatim>\<open>find\<close> does not raise: it returns the entry of the dictionary under
  schema, name, left type and right type (stripped of leading whitespace), which is the
  operator stored there or \<open>None\<close> when there is none. The text is split by the rules of the
  key parser of \<^verbatim>\<open>from_map\<close>.
\<close>

theorem find_operator_wellformed:
  assumes "split oper None = (sch, nm @ ''('' @ larg @ '','' @ rarg @ '')'')"
    and "CHR ''('' \<notin> set nm" and "CHR '','' \<notin> set larg" and "CHR '','' \<notin> set rarg"
  shows "find_operator split d oper = Inr (entries d (sch, nm, larg, lstrip rarg))
       \<and> split_func_args (nm @ ''('' @ larg @ '','' @ rarg @ '')'') =
           (case parse_key (''operator '' @ nm @ ''('' @ larg @ '','' @ rarg @ '')'') of
              Inl err \<Rightarrow> Inl err
            | Inr (n, l, r) \<Rightarrow> Inr (n, [l, r]))"
proof
  have "split_func_args (nm @ ''('' @ larg @ '','' @ rarg @ '')'') =
      Inr (nm, [larg, lstrip rarg])"
    using assms(2,3,4) by (rule split_func_args_wellformed)
  then show "find_operator split d oper = Inr (entries d (sch, nm, larg, lstrip rarg))"
    using assms(1) by (simp add: find_operator_def get_tuple_def)
next
  show "split_func_args (nm @ ''('' @ larg @ '','' @ rarg @ '')'') =
           (case parse_key (''operator '' @ nm @ ''('' @ larg @ '','' @ rarg @ '')'') of
              Inl err \<Rightarrow> Inl err
            | Inr (n, l, r) \<Rightarrow> Inr (n, [l, r]))"
    by (simp only: parse_key_tag split_func_args_def)
qed

theorem find_operator_wellformed_witness:
  "split_unqualified ''#>=#(hstore,hstore)'' None = (''public'', ''#>=#(hstore,hstore)'')
   \<and> CHR ''('' \<notin> set ''#>=#'' \<and> CHR '','' \<notin> set ''hstore''
   \<and> find_operator split_unqualified
        (empty_dict\<lparr>entries := [(''public'', ''#>=#'', ''hstore'', ''hstore'') \<mapsto> hstore_ge]\<rparr>)
        ''#>=#(hstore,hstore)'' = Inr (Some hstore_ge)
   \<and> find_operator split_unqualified empty_dict ''#>=#(hstore,hstore)'' = Inr None"
proof -
  have s: "split_unqualified ''#>=#(hstore,hstore)'' None =
      (''public'', ''#>=#'' @ ''('' @ ''hstore'' @ '','' @ ''hstore'' @ '')'')"
    by (simp add: split_unqualified_def)
  have c: "CHR ''('' \<notin> set ''#>=#''" "CHR '','' \<notin> set ''hstore''"
    by simp_all
  show ?thesis
    using find_operator_wellformed [where split = split_unqualified
        and oper = "''#>=#(hstore,hstore)''" and sch = "''public''" and nm = "''#>=#''"
        and larg = "''hstore''" and rarg = "''hstore''"
        and d = "empty_dict\<lparr>entries := [(''public'', ''#>=#'', ''hstore'', ''hstore'') \<mapsto> hstore_ge]\<rparr>"]
      find_operator_wellformed [where split = split_unqualified
        and oper = "''#>=#(hstore,hstore)''" and sch = "''public''" and nm = "''#>=#''"
        and larg = "''hstore''" and rarg = "''hstore''" and d = empty_dict]
      s c
    by (simp add: lstrip_hstore empty_dict_def)
qed

end
